theory Spec2Isabelle
  imports Complex_Main
begin

section \<open>JavaScript values\<close>

text \<open>
  A JavaScript string is a sequence of UTF-16 code units; a code unit is modelled by its
  number. \<open>js\<close> turns an ASCII literal into such a string.
\<close>

type_synonym js_string = "nat list"

definition js :: "string \<Rightarrow> js_string" where
  "js s = map of_char s"

text \<open>
  The code units that \<open>String.prototype.trim\<close> strips: the WhiteSpace and
  LineTerminator productions of ECMAScript (tab, LF, VT, FF, CR, space, NBSP, the
  Unicode space separators, LS, PS and the byte order mark).
\<close>

definition is_js_whitespace :: "nat \<Rightarrow> bool" where
  "is_js_whitespace c \<longleftrightarrow>
     c = 0x09 \<or> c = 0x0A \<or> c = 0x0B \<or> c = 0x0C \<or> c = 0x0D \<or> c = 0x20 \<or> c = 0xA0
     \<or> c = 0x1680 \<or> (0x2000 \<le> c \<and> c \<le> 0x200A) \<or> c = 0x2028 \<or> c = 0x2029
     \<or> c = 0x202F \<or> c = 0x205F \<or> c = 0x3000 \<or> c = 0xFEFF"

definition trim_start :: "js_string \<Rightarrow> js_string" where
  "trim_start s = dropWhile is_js_whitespace s"

definition trim :: "js_string \<Rightarrow> js_string" where
  "trim s = rev (dropWhile is_js_whitespace (rev (trim_start s)))"

text \<open>\<open>!s.trim()\<close>: the empty string is the only falsy string.\<close>

definition is_blank :: "js_string \<Rightarrow> bool" where
  "is_blank s \<longleftrightarrow> trim s = []"

text \<open>\<open>!x\<close> for a value that is a string, \<open>null\<close> or \<open>undefined\<close> (\<open>None\<close>).\<close>

fun falsy :: "js_string option \<Rightarrow> bool" where
  "falsy None = True"
| "falsy (Some s) = (s = [])"

text \<open>
  A number as \<open>parseInt\<close> returns it: \<open>NaN\<close>, an integer that a double holds
  exactly (\<open>Num\<close>, magnitude at most 2^53), or the Number value for an integer beyond
  that (\<open>Rounded\<close>: the nearest double, or an infinity; the rounding itself is not
  computed). The sign of zero is not kept.
\<close>

datatype js_number = NaN | Num int | Rounded int

text \<open>Opaque JSON payloads that the client stores without looking inside.\<close>

typedecl json

section \<open>ChatContext: the chat state and its reducer\<close>

text \<open>
  The scores of the emotions of a message, as the object's entries in property order.
\<close>

type_synonym emotions = "(js_string \<times> real) list"

text \<open>
  A message of the list. The user's message has the first five fields only; the fields
  of the bot's message that it lacks are \<open>undefined\<close> (\<open>None\<close>).
\<close>

record chat_message =
  msg_id :: js_string
  message :: js_string
  response :: "js_string option"
  timestamp :: js_string
  isUser :: bool
  tone_used :: "js_string option"
  emotion_detected :: "emotions option"
  memory_recalled :: "js_string list option"
  tokens_used :: "int option"
  response_time :: "real option"

record session =
  session_id :: js_string
  title :: "js_string option"

record chat_state =
  messages :: "chat_message list"
  sessions :: "session list"
  currentSessionId :: "js_string option"
  isLoading :: bool
  isTyping :: bool
  error :: "js_string option"
  analytics :: "json option"

definition initialState :: chat_state where
  "initialState = \<lparr> messages = [], sessions = [], currentSessionId = None,
     isLoading = False, isTyping = False, error = None, analytics = None \<rparr>"

datatype chat_action =
    SET_LOADING bool
  | SET_TYPING bool
  | SET_ERROR "js_string option"
  | ADD_MESSAGE chat_message
  | SET_MESSAGES "chat_message list"
  | SET_SESSIONS "session list"
  | SET_CURRENT_SESSION "js_string option"
  | ADD_SESSION session
  | DELETE_SESSION js_string
  | SET_ANALYTICS "json option"
  | CLEAR_MESSAGES
  | OTHER_ACTION

fun chatReducer :: "chat_state \<Rightarrow> chat_action \<Rightarrow> chat_state" where
  "chatReducer state (SET_LOADING p) = state\<lparr>isLoading := p\<rparr>"
| "chatReducer state (SET_TYPING p) = state\<lparr>isTyping := p\<rparr>"
| "chatReducer state (SET_ERROR p) = state\<lparr>error := p\<rparr>"
| "chatReducer state (ADD_MESSAGE p) = state\<lparr>messages := messages state @ [p]\<rparr>"
| "chatReducer state (SET_MESSAGES p) = state\<lparr>messages := p\<rparr>"
| "chatReducer state (SET_SESSIONS p) = state\<lparr>sessions := p\<rparr>"
| "chatReducer state (SET_CURRENT_SESSION p) = state\<lparr>currentSessionId := p\<rparr>"
| "chatReducer state (ADD_SESSION p) = state\<lparr>sessions := p # sessions state\<rparr>"
| "chatReducer state (DELETE_SESSION p) =
     state\<lparr>sessions := filter (\<lambda>s. session_id s \<noteq> p) (sessions state),
           currentSessionId :=
             (if currentSessionId state = Some p then None else currentSessionId state),
           messages := (if currentSessionId state = Some p then [] else messages state)\<rparr>"
| "chatReducer state (SET_ANALYTICS p) = state\<lparr>analytics := p\<rparr>"
| "chatReducer state CLEAR_MESSAGES = state\<lparr>messages := []\<rparr>"
| "chatReducer state OTHER_ACTION = state"

text \<open>
  The effects of the asynchronous functions of the two contexts, in the order in which
  they happen. The answer of the backend to each request is an input of the model.
\<close>

datatype 'a api_outcome =
    Resolved 'a
  | Rejected "js_string option" \<comment> \<open>the promise rejects; the payload is \<open>error.message\<close>\<close>

record send_request =
  req_user_id :: "js_string option"
  req_message :: js_string
  req_session_id :: "js_string option"
  req_recent_context :: js_string

record api_response =
  res_response :: js_string
  res_session_id :: js_string
  res_tone_used :: "js_string option"
  res_emotion_detected :: "emotions option"
  res_memory_recalled :: "js_string list option"
  res_tokens_used :: "int option"
  res_response_time :: "real option"

text \<open>The form of the profile page: \<open>newMemory\<close> of \<open>UserProfile\<close>.\<close>

record new_memory =
  content :: js_string
  memory_type :: js_string
  importance_score :: js_number

text \<open>
  An element of the \<open>memories\<close> list of UserContext: an entry as the backend lists it
  (id, content, metadata), or the form data that \<open>ADD_MEMORY\<close> appends as it is.
\<close>

datatype memory_item =
    Loaded "js_string option" js_string "json option"
  | Added new_memory

fun item_id :: "memory_item \<Rightarrow> js_string option" where
  "item_id (Loaded i c m) = i"
| "item_id (Added n) = None"

record user_state =
  user :: "json option"
  userId :: "js_string option"
  profile :: "json option"
  memories :: "memory_item list"
  user_isLoading :: bool
  user_error :: "js_string option"

datatype user_action =
    USER_SET_LOADING bool
  | USER_SET_ERROR "js_string option"
  | SET_USER "json option"
  | SET_USER_ID "js_string option"
  | SET_PROFILE "json option"
  | SET_MEMORIES "memory_item list"
  | ADD_MEMORY new_memory
  | DELETE_MEMORY js_string
  | USER_OTHER_ACTION

fun userReducer :: "user_state \<Rightarrow> user_action \<Rightarrow> user_state" where
  "userReducer state (USER_SET_LOADING p) = state\<lparr>user_isLoading := p\<rparr>"
| "userReducer state (USER_SET_ERROR p) = state\<lparr>user_error := p\<rparr>"
| "userReducer state (SET_USER p) = state\<lparr>user := p\<rparr>"
| "userReducer state (SET_USER_ID p) = state\<lparr>userId := p\<rparr>"
| "userReducer state (SET_PROFILE p) = state\<lparr>profile := p\<rparr>"
| "userReducer state (SET_MEMORIES p) = state\<lparr>memories := p\<rparr>"
| "userReducer state (ADD_MEMORY p) = state\<lparr>memories := memories state @ [Added p]\<rparr>"
| "userReducer state (DELETE_MEMORY p) =
     state\<lparr>memories := filter (\<lambda>m. item_id m \<noteq> Some p) (memories state)\<rparr>"
| "userReducer state USER_OTHER_ACTION = state"

datatype api_request =
    SendMessage send_request
  | GetSessions "js_string option"
  | DeleteSession js_string
  | AddUserMemory "js_string option" new_memory
  | GetUserMemories "js_string option" "js_string option"
  | DeleteUserMemory "js_string option" js_string

datatype effect =
    ChatDispatch chat_action
  | UserDispatch user_action
  | ApiCall api_request
  | ToastError js_string
  | ToastSuccess js_string
  | ConsoleError js_string
  | PreventDefault
  | SetNewMemory new_memory
  | SetShowAddMemory bool

subsection \<open>sendMessage, loadSessions, deleteSession\<close>

text \<open>\<open>xs.slice(-3)\<close> and \<open>xs.join(' ')\<close>.\<close>

definition slice_last3 :: "'a list \<Rightarrow> 'a list" where
  "slice_last3 xs = drop (length xs - 3) xs"

fun join_space :: "js_string list \<Rightarrow> js_string" where
  "join_space [] = []"
| "join_space [x] = x"
| "join_space (x # y # ys) = x @ [0x20] @ join_space (y # ys)"

text \<open>
  What \<open>sendMessage\<close> takes from its environment: the two uuids, the two time stamps,
  the answer to the message and the answer to the refresh of the sessions.
\<close>

record send_env =
  user_uuid :: js_string
  user_time :: js_string
  bot_uuid :: js_string
  bot_time :: js_string
  send_outcome :: "api_response api_outcome"
  sessions_outcome :: "session list api_outcome"

definition userMessage :: "send_env \<Rightarrow> js_string \<Rightarrow> chat_message" where
  "userMessage env msg =
     \<lparr> msg_id = user_uuid env, message = msg, response = None, timestamp = user_time env,
       isUser = True, tone_used = None, emotion_detected = None, memory_recalled = None,
       tokens_used = None, response_time = None \<rparr>"

definition botMessage :: "send_env \<Rightarrow> js_string \<Rightarrow> api_response \<Rightarrow> chat_message" where
  "botMessage env msg r =
     \<lparr> msg_id = bot_uuid env, message = msg, response = Some (res_response r),
       timestamp = bot_time env, isUser = False, tone_used = res_tone_used r,
       emotion_detected = res_emotion_detected r, memory_recalled = res_memory_recalled r,
       tokens_used = res_tokens_used r, response_time = res_response_time r \<rparr>"

definition loadSessions :: "session list api_outcome \<Rightarrow> js_string option \<Rightarrow> effect list" where
  "loadSessions outcome uid =
     ApiCall (GetSessions uid) #
     (case outcome of
        Resolved ss \<Rightarrow> [ChatDispatch (SET_SESSIONS ss)]
      | Rejected e \<Rightarrow> [ConsoleError (js ''Error loading sessions:''),
                       ToastError (js ''Failed to load chat sessions'')])"

text \<open>
  The part of \<open>sendMessage\<close> up to and including the call of the backend, and the part
  that runs once the call has completed (\<open>try\<close>, \<open>catch\<close>, \<open>finally\<close>). \<open>state\<close> is
  the state that the function closed over.
\<close>

definition sendMessage_request :: "chat_state \<Rightarrow> js_string \<Rightarrow> js_string option \<Rightarrow> send_request" where
  "sendMessage_request state msg uid =
     \<lparr> req_user_id = uid, req_message = msg, req_session_id = currentSessionId state,
       req_recent_context = join_space (map message (slice_last3 (messages state))) \<rparr>"

definition sendMessage_before :: "send_env \<Rightarrow> chat_state \<Rightarrow> js_string \<Rightarrow> js_string option \<Rightarrow> effect list" where
  "sendMessage_before env state msg uid =
     [ChatDispatch (ADD_MESSAGE (userMessage env msg)),
      ChatDispatch (SET_TYPING True),
      ApiCall (SendMessage (sendMessage_request state msg uid))]"

definition sendMessage_after :: "send_env \<Rightarrow> chat_state \<Rightarrow> js_string \<Rightarrow> js_string option \<Rightarrow> effect list" where
  "sendMessage_after env state msg uid =
     (case send_outcome env of
        Resolved r \<Rightarrow>
          ChatDispatch (ADD_MESSAGE (botMessage env msg r)) #
          (if Some (res_session_id r) \<noteq> currentSessionId state
           then ChatDispatch (SET_CURRENT_SESSION (Some (res_session_id r))) #
                loadSessions (sessions_outcome env) uid
           else [])
      | Rejected e \<Rightarrow>
          [ConsoleError (js ''Error sending message:''),
           ToastError (js ''Failed to send message. Please try again.''),
           ChatDispatch (SET_ERROR e)])
     @ [ChatDispatch (SET_TYPING False)]"

definition sendMessage :: "send_env \<Rightarrow> chat_state \<Rightarrow> js_string \<Rightarrow> js_string option \<Rightarrow> effect list" where
  "sendMessage env state msg uid =
     (if is_blank msg then []
      else sendMessage_before env state msg uid @ sendMessage_after env state msg uid)"


subsection \<open>UserContext: loadMemories, addMemory, deleteMemory\<close>

definition loadMemories ::
  "memory_item list api_outcome \<Rightarrow> user_state \<Rightarrow> js_string option \<Rightarrow> effect list" where
  "loadMemories outcome state memoryType =
     (if falsy (userId state) then []
      else ApiCall (GetUserMemories (userId state) memoryType) #
           (case outcome of
              Resolved ms \<Rightarrow> [UserDispatch (SET_MEMORIES ms)]
            | Rejected e \<Rightarrow> [ConsoleError (js ''Error loading memories:'')]))"

text \<open>
  \<open>addMemory\<close> starts the refresh of the list without awaiting it; its effects are
  listed right after the toast.
\<close>

definition addMemory ::
  "unit api_outcome \<Rightarrow> memory_item list api_outcome \<Rightarrow> user_state \<Rightarrow> new_memory \<Rightarrow> effect list" where
  "addMemory outcome refresh state memoryData =
     (if falsy (userId state) then []
      else ApiCall (AddUserMemory (userId state) memoryData) #
           (case outcome of
              Resolved u \<Rightarrow>
                [UserDispatch (ADD_MEMORY memoryData),
                 ToastSuccess (js ''Memory added successfully'')]
                @ loadMemories refresh state None
            | Rejected e \<Rightarrow> [ConsoleError (js ''Error adding memory:''),
                             ToastError (js ''Failed to add memory'')]))"


subsection \<open>UserProfile: the form that adds a memory\<close>

record profile_view =
  newMemory :: new_memory
  showAddMemory :: bool

definition emptyMemory :: new_memory where
  "emptyMemory = \<lparr> content = [], memory_type = js ''preference'', importance_score = Num 5 \<rparr>"

definition handleAddMemory ::
  "unit api_outcome \<Rightarrow> memory_item list api_outcome \<Rightarrow> user_state \<Rightarrow> profile_view \<Rightarrow> effect list" where
  "handleAddMemory outcome refresh state view =
     PreventDefault #
     (if is_blank (content (newMemory view)) then []
      else addMemory outcome refresh state (newMemory view)
           @ [SetNewMemory emptyMemory, SetShowAddMemory False])"

text \<open>
  The object literal \<open>colors\<close> of \<open>getMemoryTypeColor\<close>: its own properties, which
  are the memory types that the page knows how to show.
\<close>

definition colors :: "(js_string \<times> js_string) list" where
  "colors =
     [(js ''preference'', js ''bg-blue-100 text-blue-800''),
      (js ''fact'', js ''bg-green-100 text-green-800''),
      (js ''emotion'', js ''bg-pink-100 text-pink-800''),
      (js ''context'', js ''bg-gray-100 text-gray-800''),
      (js ''goal'', js ''bg-purple-100 text-purple-800''),
      (js ''interest'', js ''bg-yellow-100 text-yellow-800'')]"

text \<open>The values of the options of the Memory Type select, in order.\<close>

definition memory_type_options :: "js_string list" where
  "memory_type_options =
     [js ''preference'', js ''fact'', js ''emotion'', js ''goal'', js ''interest'']"

text \<open>The two \<open>onChange\<close> handlers of the form that the claims are about.\<close>

definition memory_type_change :: "js_string \<Rightarrow> profile_view \<Rightarrow> profile_view" where
  "memory_type_change v view = view\<lparr>newMemory := (newMemory view)\<lparr>memory_type := v\<rparr>\<rparr>"

definition content_change :: "js_string \<Rightarrow> profile_view \<Rightarrow> profile_view" where
  "content_change v view = view\<lparr>newMemory := (newMemory view)\<lparr>content := v\<rparr>\<rparr>"

text \<open>
  \<open>parseInt(string)\<close> with no radix: leading white space is skipped, a sign is read,
  a prefix \<open>0x\<close> or \<open>0X\<close> selects radix 16 (otherwise 10), and the longest prefix of
  digits is the value, as a Number; without a digit the result is \<open>NaN\<close>.
\<close>

definition digit_value :: "nat \<Rightarrow> nat option" where
  "digit_value c =
     (if 0x30 \<le> c \<and> c \<le> 0x39 then Some (c - 0x30)
      else if 0x61 \<le> c \<and> c \<le> 0x7A then Some (c - 0x61 + 10)
      else if 0x41 \<le> c \<and> c \<le> 0x5A then Some (c - 0x41 + 10)
      else None)"

definition is_radix_digit :: "nat \<Rightarrow> nat \<Rightarrow> bool" where
  "is_radix_digit r c = (case digit_value c of Some d \<Rightarrow> d < r | None \<Rightarrow> False)"

definition digits_value :: "nat \<Rightarrow> js_string \<Rightarrow> nat" where
  "digits_value r z =
     foldl (\<lambda>a c. case digit_value c of Some d \<Rightarrow> a * r + d | None \<Rightarrow> a) 0 z"

definition parseInt :: "js_string \<Rightarrow> js_number" where
  "parseInt str =
     (let s = trim_start str;
          neg = (case s of [] \<Rightarrow> False | c # rest \<Rightarrow> c = 0x2D);
          s1 = (case s of [] \<Rightarrow> [] | c # rest \<Rightarrow> if c = 0x2B \<or> c = 0x2D then rest else s);
          hex = (case s1 of a # b # rest \<Rightarrow> a = 0x30 \<and> (b = 0x78 \<or> b = 0x58) | _ \<Rightarrow> False);
          r = (if hex then 16 else 10);
          s2 = (if hex then drop 2 s1 else s1);
          z = takeWhile (is_radix_digit r) s2
      in if z = [] then NaN
         else if int (digits_value r z) \<le> 2 ^ 53
         then Num ((if neg then - 1 else 1) * int (digits_value r z))
         else Rounded ((if neg then - 1 else 1) * int (digits_value r z)))"

definition importance_change :: "js_string \<Rightarrow> profile_view \<Rightarrow> profile_view" where
  "importance_change v view =
     view\<lparr>newMemory := (newMemory view)\<lparr>importance_score := parseInt v\<rparr>\<rparr>"

subsection \<open>Running the effects\<close>

text \<open>
  The state of the client (the two reducers and the form) and the requests that have
  been sent to the backend, oldest first.
\<close>

record world =
  chat_ctx :: chat_state
  user_ctx :: user_state
  form :: profile_view
  requests :: "api_request list"

fun apply_effect :: "world \<Rightarrow> effect \<Rightarrow> world" where
  "apply_effect w (ChatDispatch a) = w\<lparr>chat_ctx := chatReducer (chat_ctx w) a\<rparr>"
| "apply_effect w (UserDispatch a) = w\<lparr>user_ctx := userReducer (user_ctx w) a\<rparr>"
| "apply_effect w (ApiCall r) = w\<lparr>requests := requests w @ [r]\<rparr>"
| "apply_effect w (ToastError s) = w"
| "apply_effect w (ToastSuccess s) = w"
| "apply_effect w (ConsoleError s) = w"
| "apply_effect w PreventDefault = w"
| "apply_effect w (SetNewMemory n) = w\<lparr>form := (form w)\<lparr>newMemory := n\<rparr>\<rparr>"
| "apply_effect w (SetShowAddMemory b) = w\<lparr>form := (form w)\<lparr>showAddMemory := b\<rparr>\<rparr>"

definition run :: "world \<Rightarrow> effect list \<Rightarrow> world" where
  "run w es = foldl apply_effect w es"

section \<open>MessageMetadata: getDominantEmotion\<close>

text \<open>
  \<open>emotions[k]\<close> and \<open>x > y\<close> on what it returns: a comparison with \<open>undefined\<close>
  is false.
\<close>

definition js_gt :: "real option \<Rightarrow> real option \<Rightarrow> bool" where
  "js_gt x y = (case (x, y) of (Some a, Some b) \<Rightarrow> a > b | _ \<Rightarrow> False)"

definition pick :: "emotions \<Rightarrow> js_string \<times> real \<Rightarrow> js_string \<times> real \<Rightarrow> js_string \<times> real" where
  "pick emotions a b = (if js_gt (map_of emotions (fst a)) (map_of emotions (fst b)) then a else b)"

text \<open>
  The argument is \<open>None\<close> for \<open>null\<close> and \<open>undefined\<close>, and otherwise the entries of
  the object (\<open>Object.entries\<close>); \<open>reduce\<close> without an initial value starts from the
  first entry. The result \<open>None\<close> is \<open>null\<close>.
\<close>

definition getDominantEmotion :: "emotions option \<Rightarrow> (js_string \<times> real) option" where
  "getDominantEmotion emotions =
     (case emotions of
        None \<Rightarrow> None
      | Some es \<Rightarrow>
          (case es of
             [] \<Rightarrow> None
           | e # rest \<Rightarrow> Some (foldl (pick es) e rest)))"

section \<open>The memory subsystem of the backend\<close>

text \<open>
  Modelled from the spec: the Memory Manager, the Memory Scorer, the Structured Store
  and the Vector Index belong to the backend, whose code is not among the sources; the
  client above only calls it. Every definition of this section follows the words of
  sections 3, 4, 6 and 7 of the specification; the data model is that of section 3.
\<close>

datatype memory_kind = Preference | Fact | Emotion | Goal | Interest | Context

record memory_entry =
  entry_id :: js_string
  user_id :: js_string
  entry_content :: js_string
  entry_type :: memory_kind
  importance :: int
  embedding :: "real list"
  created_at :: int
  last_accessed_at :: int
  access_count :: nat

record retrieval_query =
  q_user_id :: js_string
  query_text :: js_string
  k :: nat
  type_filter :: "memory_kind option"

record scored_memory =
  entry :: memory_entry
  relevance :: real

datatype store_error = TransientStoreFailure | Desync | NotFound | InvalidEntry

subsection \<open>Memory Scorer\<close>

record scorer_config =
  w1 :: real
  w2 :: real
  w3 :: real
  lambda :: real

text \<open>
  Modelled from the spec: \<open>combined_relevance\<close> of the Memory Scorer (4.2),
  \<open>relevance = w1 * raw_similarity + w2 * normalized_importance + w3 * recency_factor\<close>
  with \<open>normalized_importance = importance / 10\<close> and
  \<open>recency_factor = exp(-\<lambda> * (now - last_accessed_at))\<close>.
\<close>

definition combined_relevance :: "scorer_config \<Rightarrow> memory_entry \<Rightarrow> real \<Rightarrow> int \<Rightarrow> real" where
  "combined_relevance cfg e raw_similarity now =
     w1 cfg * raw_similarity
     + w2 cfg * (real_of_int (importance e) / 10)
     + w3 cfg * exp (- lambda cfg * real_of_int (now - last_accessed_at e))"

record decay_config =
  decay_rate :: real \<comment> \<open>points of importance lost per unit of idle time\<close>
  protected_threshold :: nat

definition protected_minimum :: int where
  "protected_minimum = 1"

text \<open>
  Modelled from the spec: \<open>decayed_importance\<close> of the Memory Scorer (4.2), the
  importance less a step proportional to the idle time since the last access, floored at
  0; an entry whose access count has reached the threshold does not go below the
  protected minimum (1). The rate of the decay is configuration.
\<close>

definition decayed_importance :: "decay_config \<Rightarrow> memory_entry \<Rightarrow> int \<Rightarrow> int" where
  "decayed_importance cfg e now =
     (let idle = max 0 (now - last_accessed_at e);
          step = \<lfloor>decay_rate cfg * real_of_int idle\<rfloor>;
          d = max 0 (importance e - step)
      in if protected_threshold cfg \<le> access_count e then max protected_minimum d else d)"

subsection \<open>Structured Store and Vector Index\<close>


definition store_get :: "memory_entry list \<Rightarrow> js_string \<Rightarrow> js_string \<Rightarrow> memory_entry option" where
  "store_get rows uid i = find (\<lambda>e. entry_id e = i \<and> user_id e = uid) rows"

record index_row =
  ix_id :: js_string
  ix_embedding :: "real list"
  ix_user_id :: js_string
  ix_type :: memory_kind

definition dot :: "real list \<Rightarrow> real list \<Rightarrow> real" where
  "dot a b = sum_list (map (\<lambda>(x, y). x * y) (zip a b))"

definition cosine :: "real list \<Rightarrow> real list \<Rightarrow> real" where
  "cosine a b =
     (if dot a a = 0 \<or> dot b b = 0 then 0 else dot a b / (sqrt (dot a a) * sqrt (dot b b)))"

text \<open>
  Modelled from the spec: the ordering of results, as an insertion sort by a comparison;
  the element that \<open>before\<close> prefers comes first.
\<close>

fun insert_by :: "('a \<Rightarrow> 'a \<Rightarrow> bool) \<Rightarrow> 'a \<Rightarrow> 'a list \<Rightarrow> 'a list" where
  "insert_by before x [] = [x]"
| "insert_by before x (y # ys) =
     (if before x y then x # y # ys else y # insert_by before x ys)"

definition sort_by :: "('a \<Rightarrow> 'a \<Rightarrow> bool) \<Rightarrow> 'a list \<Rightarrow> 'a list" where
  "sort_by before xs = foldr (insert_by before) xs []"

text \<open>
  Modelled from the spec: \<open>query\<close> of the Vector Index (4.3). It returns (id, raw
  cosine similarity) pairs of the rows of the user (and of the type, if one is given),
  by descending similarity, at most \<open>n\<close> of them.
\<close>

definition vector_query ::
  "index_row list \<Rightarrow> real list \<Rightarrow> js_string \<Rightarrow> nat \<Rightarrow> memory_kind option \<Rightarrow> (js_string \<times> real) list" where
  "vector_query index q uid n tf =
     take n (sort_by (\<lambda>a b. snd a \<ge> snd b)
       (map (\<lambda>r. (ix_id r, cosine q (ix_embedding r)))
         (filter (\<lambda>r. ix_user_id r = uid \<and> (case tf of None \<Rightarrow> True | Some t \<Rightarrow> ix_type r = t))
            index)))"

subsection \<open>Memory Manager\<close>

record backend =
  rows :: "memory_entry list"
  index :: "index_row list"

text \<open>
  Modelled from the spec: the order of the results of \<open>retrieve\<close> (4.1), greater
  relevance first, then the more recent access.
\<close>

definition ranks_before :: "scored_memory \<Rightarrow> scored_memory \<Rightarrow> bool" where
  "ranks_before a b \<longleftrightarrow>
     relevance a > relevance b
     \<or> (relevance a = relevance b
        \<and> last_accessed_at (entry a) \<ge> last_accessed_at (entry b))"

text \<open>
  Modelled from the spec: the scoring step of \<open>retrieve\<close> (4.1). The candidates of the
  index that the store knows for this user, each with its combined relevance; \<open>touch\<close>
  is the side effect on an entry that is returned.
\<close>

fun score_candidates ::
  "scorer_config \<Rightarrow> memory_entry list \<Rightarrow> js_string \<Rightarrow> int \<Rightarrow> (js_string \<times> real) list \<Rightarrow> scored_memory list" where
  "score_candidates cfg rs uid now [] = []"
| "score_candidates cfg rs uid now ((i, sim) # cs) =
     (case store_get rs uid i of
        None \<Rightarrow> score_candidates cfg rs uid now cs
      | Some e \<Rightarrow> \<lparr> entry = e, relevance = combined_relevance cfg e sim now \<rparr>
                  # score_candidates cfg rs uid now cs)"

definition touch :: "js_string \<Rightarrow> js_string list \<Rightarrow> int \<Rightarrow> memory_entry \<Rightarrow> memory_entry" where
  "touch uid ids now e =
     (if user_id e = uid \<and> entry_id e \<in> set ids
      then e\<lparr> access_count := access_count e + 1, last_accessed_at := now \<rparr>
      else e)"

text \<open>
  Modelled from the spec: \<open>retrieve\<close> of the Memory Manager (4.1). It embeds the query
  text, asks the index for the top \<open>4 * k\<close> candidates of the user, scores them, returns the top \<open>k\<close> and records
  the access on the entries returned. \<open>embed_text\<close> is the Embedding Provider.
\<close>

definition retrieve ::
  "scorer_config \<Rightarrow> (js_string \<Rightarrow> real list) \<Rightarrow> backend \<Rightarrow> int \<Rightarrow> retrieval_query
     \<Rightarrow> scored_memory list \<times> backend" where
  "retrieve cfg embed_text b now q =
     (let candidates = vector_query (index b) (embed_text (query_text q)) (q_user_id q) (4 * k q)
                         (type_filter q);
          scored = score_candidates cfg (rows b) (q_user_id q) now candidates;
          top = take (k q) (sort_by ranks_before scored);
          ids = map (\<lambda>sm. entry_id (entry sm)) top
      in (top, b\<lparr> rows := map (touch (q_user_id q) ids now) (rows b) \<rparr>))"


text \<open>Example values.\<close>

definition example_chat :: chat_state where
  "example_chat = initialState
     \<lparr> sessions := [\<lparr>session_id = js ''s1'', title = None\<rparr>,
                    \<lparr>session_id = js ''s2'', title = None\<rparr>],
       currentSessionId := Some (js ''s1'') \<rparr>"

definition example_emotions :: emotions where
  "example_emotions = [(js ''joy'', 0.2), (js ''sadness'', 0.7), (js ''anger'', 0.1)]"

definition example_response :: api_response where
  "example_response = \<lparr> res_response = js ''hello'', res_session_id = js ''s1'',
     res_tone_used = None, res_emotion_detected = None, res_memory_recalled = None,
     res_tokens_used = Some 12, res_response_time = None \<rparr>"

definition example_env :: "api_response api_outcome \<Rightarrow> send_env" where
  "example_env out = \<lparr> user_uuid = js ''u1'', user_time = js ''t1'', bot_uuid = js ''u2'',
     bot_time = js ''t2'', send_outcome = out, sessions_outcome = Rejected None \<rparr>"

definition example_user :: user_state where
  "example_user = \<lparr> user = None, userId = Some (js ''alice''), profile = None,
     memories = [Loaded (Some (js ''m1'')) (js ''likes tea'') None],
     user_isLoading = False, user_error = None \<rparr>"

definition example_world :: world where
  "example_world = \<lparr> chat_ctx = example_chat, user_ctx = example_user,
     form = \<lparr> newMemory = emptyMemory, showAddMemory = True \<rparr>, requests = [] \<rparr>"

definition example_entry :: "string \<Rightarrow> string \<Rightarrow> int \<Rightarrow> real list \<Rightarrow> int \<Rightarrow> memory_entry" where
  "example_entry i u imp emb t = \<lparr> entry_id = js i, user_id = js u, entry_content = js ''text'',
     entry_type = Fact, importance = imp, embedding = emb, created_at = 0,
     last_accessed_at = t, access_count = 5 \<rparr>"

definition mirror :: "memory_entry \<Rightarrow> index_row" where
  "mirror e = \<lparr> ix_id = entry_id e, ix_embedding = embedding e, ix_user_id = user_id e,
     ix_type = entry_type e \<rparr>"

definition example_rows :: "memory_entry list" where
  "example_rows = [example_entry ''m1'' ''alice'' 8 [1, 0] 50,
                   example_entry ''m2'' ''alice'' 3 [0, 1] 60,
                   example_entry ''m3'' ''bob'' 9 [1, 0] 70]"

definition example_backend :: backend where
  "example_backend = \<lparr> rows = example_rows, index = map mirror example_rows \<rparr>"

definition example_scorer :: scorer_config where
  "example_scorer = \<lparr> w1 = 0.6, w2 = 0.25, w3 = 0.15, lambda = 0 \<rparr>"

definition example_query :: "string \<Rightarrow> nat \<Rightarrow> retrieval_query" where
  "example_query u n = \<lparr> q_user_id = js u, query_text = js ''tea'', k = n, type_filter = None \<rparr>"

definition example_decay :: decay_config where
  "example_decay = \<lparr> decay_rate = 1 / 2, protected_threshold = 3 \<rparr>"

lemmas example_defs = example_backend_def example_rows_def example_entry_def mirror_def
  example_scorer_def example_query_def js_def

section \<open>Properties\<close>

text \<open>
  C9. The DELETE_SESSION action keeps exactly the sessions whose \<open>session_id\<close> differs
  from the payload, in their order; when the payload is the current session the current
  session id becomes null and the messages become empty, otherwise both are unchanged;
  the fields \<open>isLoading\<close>, \<open>isTyping\<close>, \<open>error\<close> and \<open>analytics\<close> are unchanged.
\<close>

theorem delete_session_frame:
  "sessions (chatReducer state (DELETE_SESSION p))
     = filter (\<lambda>s. session_id s \<noteq> p) (sessions state)
   \<and> set (sessions (chatReducer state (DELETE_SESSION p)))
     = set (sessions state) - {s. session_id s = p}
   \<and> (currentSessionId state = Some p \<longrightarrow>
        currentSessionId (chatReducer state (DELETE_SESSION p)) = None
        \<and> messages (chatReducer state (DELETE_SESSION p)) = [])
   \<and> (currentSessionId state \<noteq> Some p \<longrightarrow>
        currentSessionId (chatReducer state (DELETE_SESSION p)) = currentSessionId state
        \<and> messages (chatReducer state (DELETE_SESSION p)) = messages state)
   \<and> isLoading (chatReducer state (DELETE_SESSION p)) = isLoading state
   \<and> isTyping (chatReducer state (DELETE_SESSION p)) = isTyping state
   \<and> error (chatReducer state (DELETE_SESSION p)) = error state
   \<and> analytics (chatReducer state (DELETE_SESSION p)) = analytics state"
  by auto

theorem delete_session_frame_witness:
  "currentSessionId example_chat = Some (js ''s1'')
   \<and> currentSessionId (chatReducer example_chat (DELETE_SESSION (js ''s1''))) = None
   \<and> messages (chatReducer example_chat (DELETE_SESSION (js ''s1''))) = []
   \<and> currentSessionId example_chat \<noteq> Some (js ''s2'')
   \<and> currentSessionId (chatReducer example_chat (DELETE_SESSION (js ''s2'')))
       = Some (js ''s1'')
   \<and> sessions (chatReducer example_chat (DELETE_SESSION (js ''s2'')))
       = [\<lparr>session_id = js ''s1'', title = None\<rparr>]"
  using delete_session_frame [of example_chat "js ''s1''"]
    delete_session_frame [of example_chat "js ''s2''"]
  by (simp add: example_chat_def initialState_def js_def)

subsection \<open>The dominant emotion\<close>

lemma map_of_entry:
  "distinct (map fst es) \<Longrightarrow> x \<in> set es \<Longrightarrow> map_of es (fst x) = Some (snd x)"
  by (cases x) simp

lemma pick_entries:
  "distinct (map fst es) \<Longrightarrow> a \<in> set es \<Longrightarrow> b \<in> set es \<Longrightarrow>
   pick es a b = (if snd a > snd b then a else b)"
  by (simp add: pick_def js_gt_def map_of_entry)

lemma foldl_pick_max:
  "distinct (map fst es) \<Longrightarrow> a \<in> set es \<Longrightarrow> set xs \<subseteq> set es \<Longrightarrow>
   foldl (pick es) a xs \<in> set (a # xs)
   \<and> (\<forall>x \<in> set (a # xs). snd x \<le> snd (foldl (pick es) a xs))"
proof (induction xs arbitrary: a)
  case Nil
  then show ?case by simp
next
  case (Cons b xs)
  have b: "b \<in> set es" and xs: "set xs \<subseteq> set es" using Cons.prems(3) by auto
  have p: "pick es a b = (if snd a > snd b then a else b)"
    using pick_entries [OF Cons.prems(1) Cons.prems(2) b] .
  have pin: "pick es a b \<in> set es" using p Cons.prems(2) b by simp
  note ih = Cons.IH [OF Cons.prems(1) pin xs]
  have pa: "snd a \<le> snd (pick es a b)" and pb: "snd b \<le> snd (pick es a b)"
    using p by auto
  from ih have "snd (pick es a b) \<le> snd (foldl (pick es) (pick es a b) xs)" by simp
  with pa pb ih p show ?case by (auto split: if_splits)
qed

text \<open>
  C10. \<open>getDominantEmotion\<close> returns null for null, undefined and the empty object; for
  a non-empty object (its keys are distinct, its scores are numbers) it returns one of
  the entries, and no entry of the object has a greater score.
\<close>

theorem getDominantEmotion_max:
  "getDominantEmotion None = None
   \<and> getDominantEmotion (Some []) = None
   \<and> (es \<noteq> [] \<and> distinct (map fst es) \<longrightarrow>
        (\<exists>e. getDominantEmotion (Some es) = Some e \<and> e \<in> set es
             \<and> (\<forall>x \<in> set es. snd x \<le> snd e)))"
proof (intro conjI impI)
  show "getDominantEmotion None = None" by (simp add: getDominantEmotion_def)
  show "getDominantEmotion (Some []) = None" by (simp add: getDominantEmotion_def)
  assume h: "es \<noteq> [] \<and> distinct (map fst es)"
  then obtain a xs where es: "es = a # xs" by (cases es) auto
  have "foldl (pick es) a xs \<in> set (a # xs)
     \<and> (\<forall>x \<in> set (a # xs). snd x \<le> snd (foldl (pick es) a xs))"
    by (rule foldl_pick_max) (use h es in auto)
  then show "\<exists>e. getDominantEmotion (Some es) = Some e \<and> e \<in> set es
             \<and> (\<forall>x \<in> set es. snd x \<le> snd e)"
    using es by (simp add: getDominantEmotion_def)
qed

theorem getDominantEmotion_max_witness:
  "example_emotions \<noteq> [] \<and> distinct (map fst example_emotions)
   \<and> getDominantEmotion (Some example_emotions) = Some (js ''sadness'', 0.7)
   \<and> list_all (\<lambda>x. snd x \<le> 0.7) example_emotions"
  using getDominantEmotion_max [of example_emotions]
  by (simp add: example_emotions_def getDominantEmotion_def pick_def js_gt_def js_def)

subsection \<open>Running effects\<close>

lemma run_append: "run w (xs @ ys) = run (run w xs) ys"
  by (simp add: run_def)

lemma run_Cons: "run w (x # xs) = run (apply_effect w x) xs"
  by (simp add: run_def)

lemma run_Nil: "run w [] = w"
  by (simp add: run_def)

lemma run_loadSessions_chat:
  "messages (chat_ctx (run w (loadSessions out uid))) = messages (chat_ctx w)
   \<and> isTyping (chat_ctx (run w (loadSessions out uid))) = isTyping (chat_ctx w)
   \<and> error (chat_ctx (run w (loadSessions out uid))) = error (chat_ctx w)"
  by (cases out) (simp_all add: loadSessions_def run_def)


subsection \<open>Sorting by a comparison\<close>

lemma set_insert_by: "set (insert_by before x ys) = insert x (set ys)"
  by (induction ys) auto

lemma set_sort_by: "set (sort_by before xs) = set xs"
  by (induction xs) (simp_all add: sort_by_def set_insert_by)

lemma length_insert_by: "length (insert_by before x ys) = Suc (length ys)"
  by (induction ys) auto

lemma length_sort_by: "length (sort_by before xs) = length xs"
  by (induction xs) (simp_all add: sort_by_def length_insert_by)

lemma sorted_insert_by:
  assumes total: "\<And>a b. before a b \<or> before b a"
    and trans: "\<And>a b c. before a b \<Longrightarrow> before b c \<Longrightarrow> before a c"
  shows "sorted_wrt before ys \<Longrightarrow> sorted_wrt before (insert_by before x ys)"
proof (induction ys)
  case Nil
  then show ?case by simp
next
  case (Cons y ys)
  show ?case
  proof (cases "before x y")
    case True
    then have "\<forall>z \<in> set ys. before x z" using Cons.prems trans by auto
    with True Cons.prems show ?thesis by simp
  next
    case False
    then have "before y x" using total by blast
    with False Cons show ?thesis by (auto simp add: set_insert_by)
  qed
qed

lemma sorted_sort_by:
  assumes total: "\<And>a b. before a b \<or> before b a"
    and trans: "\<And>a b c. before a b \<Longrightarrow> before b c \<Longrightarrow> before a c"
  shows "sorted_wrt before (sort_by before xs)"
proof (induction xs)
  case Nil
  then show ?case by (simp add: sort_by_def)
next
  case (Cons x xs)
  have "sort_by before (x # xs) = insert_by before x (sort_by before xs)"
    by (simp add: sort_by_def)
  then show ?case using sorted_insert_by [OF total trans Cons.IH] by simp
qed

lemma sorted_wrt_take: "sorted_wrt P xs \<Longrightarrow> sorted_wrt P (take n xs)"
  by (metis append_take_drop_id sorted_wrt_append)

lemma ranks_before_total: "ranks_before a b \<or> ranks_before b a"
  by (auto simp add: ranks_before_def)

lemma ranks_before_trans: "ranks_before a b \<Longrightarrow> ranks_before b c \<Longrightarrow> ranks_before a c"
  by (auto simp add: ranks_before_def)

lemma store_get_user: "store_get rs uid i = Some e \<Longrightarrow> user_id e = uid \<and> e \<in> set rs \<and> entry_id e = i"
  by (auto simp add: store_get_def find_Some_iff)

lemma score_candidates_user:
  "sm \<in> set (score_candidates cfg rs uid now cs) \<Longrightarrow>
     user_id (entry sm) = uid \<and> entry sm \<in> set rs"
proof (induction cs)
  case Nil
  then show ?case by simp
next
  case (Cons c cs)
  obtain i sim where c: "c = (i, sim)" by (cases c)
  show ?case
  proof (cases "store_get rs uid i")
    case None
    then show ?thesis using Cons c by simp
  next
    case (Some e)
    from store_get_user [OF Some] have e: "user_id e = uid \<and> e \<in> set rs" by simp
    from Cons.prems c Some
    have "sm = \<lparr>entry = e, relevance = combined_relevance cfg e sim now\<rparr>
        \<or> sm \<in> set (score_candidates cfg rs uid now cs)" by simp
    then show ?thesis using e Cons.IH by auto
  qed
qed

lemma score_candidates_relevance:
  "sm \<in> set (score_candidates cfg rs uid now cs) \<Longrightarrow>
     \<exists>sim. (entry_id (entry sm), sim) \<in> set cs
        \<and> relevance sm = combined_relevance cfg (entry sm) sim now"
proof (induction cs)
  case Nil
  then show ?case by simp
next
  case (Cons c cs)
  obtain i sim where c: "c = (i, sim)" by (cases c)
  show ?case
  proof (cases "store_get rs uid i")
    case None
    then have "sm \<in> set (score_candidates cfg rs uid now cs)" using Cons.prems c by simp
    from Cons.IH [OF this] show ?thesis by auto
  next
    case (Some e)
    from store_get_user [OF Some] have e: "entry_id e = i" by simp
    from Cons.prems c Some
    consider "sm = \<lparr>entry = e, relevance = combined_relevance cfg e sim now\<rparr>"
      | "sm \<in> set (score_candidates cfg rs uid now cs)" by auto
    then show ?thesis
    proof cases
      case 1
      then have "(entry_id (entry sm), sim) \<in> set (c # cs)
          \<and> relevance sm = combined_relevance cfg (entry sm) sim now"
        using e c by simp
      then show ?thesis by blast
    next
      case 2
      from Cons.IH [OF this] show ?thesis by auto
    qed
  qed
qed

lemma score_candidates_no_rows:
  "\<forall>e \<in> set rs. user_id e \<noteq> uid \<Longrightarrow> score_candidates cfg rs uid now cs = []"
proof (induction cs)
  case Nil
  then show ?case by simp
next
  case (Cons c cs)
  obtain i sim where c: "c = (i, sim)" by (cases c)
  have "store_get rs uid i = None"
  proof (cases "store_get rs uid i")
    case (Some e)
    then show ?thesis using store_get_user [OF Some] Cons.prems by auto
  qed simp
  then show ?case using Cons c by simp
qed


subsection \<open>Retrieval\<close>

text \<open>
  C1. Every entry that \<open>retrieve\<close> returns belongs to the user of the query, whatever the
  stores hold.
\<close>

theorem retrieve_same_user:
  "\<forall>sm \<in> set (fst (retrieve cfg embed_text b now q)). user_id (entry sm) = q_user_id q"
proof
  fix sm assume "sm \<in> set (fst (retrieve cfg embed_text b now q))"
  then have "sm \<in> set (sort_by ranks_before
      (score_candidates cfg (rows b) (q_user_id q) now
        (vector_query (index b) (embed_text (query_text q)) (q_user_id q) (4 * k q) (type_filter q))))"
    by (auto simp add: retrieve_def Let_def dest: in_set_takeD)
  then show "user_id (entry sm) = q_user_id q"
    by (simp add: set_sort_by score_candidates_user)
qed

lemma example_retrieve:
  "fst (retrieve example_scorer (\<lambda>t. [1, 0]) example_backend 100 (example_query ''alice'' 2))
     = [\<lparr> entry = example_entry ''m1'' ''alice'' 8 [1, 0] 50, relevance = 0.95 \<rparr>,
        \<lparr> entry = example_entry ''m2'' ''alice'' 3 [0, 1] 60, relevance = 0.225 \<rparr>]"
  by (simp add: retrieve_def Let_def vector_query_def sort_by_def cosine_def dot_def
      store_get_def combined_relevance_def ranks_before_def example_defs)

theorem retrieve_same_user_witness:
  "fst (retrieve example_scorer (\<lambda>t. [1, 0]) example_backend 100 (example_query ''alice'' 2)) \<noteq> []
   \<and> user_id (entry (hd (fst (retrieve example_scorer (\<lambda>t. [1, 0]) example_backend 100
                              (example_query ''alice'' 2))))) = js ''alice''
   \<and> user_id (entry (last (fst (retrieve example_scorer (\<lambda>t. [1, 0]) example_backend 100
                              (example_query ''alice'' 2))))) = js ''alice''"
proof -
  let ?r = "fst (retrieve example_scorer (\<lambda>t. [1, 0]) example_backend 100
      (example_query ''alice'' 2))"
  have ne: "?r \<noteq> []"
    by (simp add: example_retrieve)
  have u: "q_user_id (example_query ''alice'' 2) = js ''alice''"
    by (simp add: example_query_def)
  have h: "hd ?r \<in> set ?r" and l: "last ?r \<in> set ?r"
    using ne by simp_all
  note t = retrieve_same_user [of example_scorer "\<lambda>t. [1, 0]" example_backend 100
      "example_query ''alice'' 2"]
  show ?thesis using ne u h l t by metis
qed

text \<open>
  C2. \<open>retrieve\<close> returns at most \<open>k\<close> results, ordered by descending combined
  relevance, ties by the more recent last access; each relevance is the combined
  relevance of the entry for a similarity that the index returned; the result is the
  empty list when the user has no memories and when \<open>k\<close> is 0.
\<close>

theorem retrieve_ranked:
  "length (fst (retrieve cfg embed_text b now q)) \<le> k q
   \<and> sorted_wrt ranks_before (fst (retrieve cfg embed_text b now q))
   \<and> (\<forall>sm \<in> set (fst (retrieve cfg embed_text b now q)).
        \<exists>sim. (entry_id (entry sm), sim)
                 \<in> set (vector_query (index b) (embed_text (query_text q)) (q_user_id q)
                          (4 * k q) (type_filter q))
             \<and> relevance sm = combined_relevance cfg (entry sm) sim now)
   \<and> ((\<forall>e \<in> set (rows b). user_id e \<noteq> q_user_id q) \<longrightarrow> fst (retrieve cfg embed_text b now q) = [])
   \<and> (k q = 0 \<longrightarrow> fst (retrieve cfg embed_text b now q) = [])"
proof (intro conjI impI ballI)
  show "length (fst (retrieve cfg embed_text b now q)) \<le> k q"
    by (simp add: retrieve_def Let_def)
  show "sorted_wrt ranks_before (fst (retrieve cfg embed_text b now q))"
    using sorted_sort_by [of ranks_before, OF ranks_before_total ranks_before_trans]
    by (simp add: retrieve_def Let_def sorted_wrt_take)
  show "\<exists>sim. (entry_id (entry sm), sim)
                 \<in> set (vector_query (index b) (embed_text (query_text q)) (q_user_id q)
                          (4 * k q) (type_filter q))
             \<and> relevance sm = combined_relevance cfg (entry sm) sim now"
    if "sm \<in> set (fst (retrieve cfg embed_text b now q))" for sm
  proof -
    from that have "sm \<in> set (sort_by ranks_before
      (score_candidates cfg (rows b) (q_user_id q) now
        (vector_query (index b) (embed_text (query_text q)) (q_user_id q) (4 * k q) (type_filter q))))"
      by (auto simp add: retrieve_def Let_def dest: in_set_takeD)
    then show ?thesis using score_candidates_relevance by (simp add: set_sort_by)
  qed
  show "fst (retrieve cfg embed_text b now q) = []" if "\<forall>e \<in> set (rows b). user_id e \<noteq> q_user_id q"
    using that by (simp add: retrieve_def Let_def score_candidates_no_rows sort_by_def)
  show "fst (retrieve cfg embed_text b now q) = []" if "k q = 0"
    using that by (simp add: retrieve_def Let_def)
qed

theorem retrieve_ranked_witness:
  "fst (retrieve example_scorer (\<lambda>t. [1, 0]) example_backend 100 (example_query ''alice'' 2))
     = [\<lparr> entry = example_entry ''m1'' ''alice'' 8 [1, 0] 50, relevance = 0.95 \<rparr>,
        \<lparr> entry = example_entry ''m2'' ''alice'' 3 [0, 1] 60, relevance = 0.225 \<rparr>]
   \<and> length (fst (retrieve example_scorer (\<lambda>t. [1, 0]) example_backend 100
        (example_query ''alice'' 2))) \<le> k (example_query ''alice'' 2)
   \<and> sorted_wrt ranks_before (fst (retrieve example_scorer (\<lambda>t. [1, 0]) example_backend 100
        (example_query ''alice'' 2)))
   \<and> q_user_id (example_query ''carol'' 2) \<notin> user_id ` set (rows example_backend)
   \<and> fst (retrieve example_scorer (\<lambda>t. [1, 0]) example_backend 100 (example_query ''carol'' 2))
       = []
   \<and> k (example_query ''alice'' 0) = 0
   \<and> fst (retrieve example_scorer (\<lambda>t. [1, 0]) example_backend 100 (example_query ''alice'' 0))
       = []"
proof -
  have c: "\<forall>e \<in> set (rows example_backend). user_id e \<noteq> q_user_id (example_query ''carol'' 2)"
    by (simp add: example_defs)
  have z: "k (example_query ''alice'' 0) = 0"
    by (simp add: example_query_def)
  note t1 = retrieve_ranked [of example_scorer "\<lambda>t. [1, 0]" example_backend 100
      "example_query ''alice'' 2"]
  note t2 = retrieve_ranked [of example_scorer "\<lambda>t. [1, 0]" example_backend 100
      "example_query ''carol'' 2"]
  note t3 = retrieve_ranked [of example_scorer "\<lambda>t. [1, 0]" example_backend 100
      "example_query ''alice'' 0"]
  have c': "q_user_id (example_query ''carol'' 2) \<notin> user_id ` set (rows example_backend)"
    using c by auto
  show ?thesis using example_retrieve c c' z t1 t2 t3 by blast
qed


subsection \<open>Decay\<close>

text \<open>
  C3. With the access count fixed (the entry is the same at both times) and a decay rate
  that is not negative, the decayed importance at a later time is at most the one at an
  earlier time; it is never below 0, and never below 1 for an entry whose access count
  is at or above the protected threshold.
\<close>

theorem decay_monotone:
  assumes "0 \<le> decay_rate cfg" and "t1 \<le> t2"
  shows "decayed_importance cfg e t2 \<le> decayed_importance cfg e t1
     \<and> 0 \<le> decayed_importance cfg e t1
     \<and> (protected_threshold cfg \<le> access_count e \<longrightarrow> 1 \<le> decayed_importance cfg e t1)"
proof -
  let ?i1 = "max 0 (t1 - last_accessed_at e)" and ?i2 = "max 0 (t2 - last_accessed_at e)"
  have "?i1 \<le> ?i2" using assms(2) by simp
  then have "decay_rate cfg * real_of_int ?i1 \<le> decay_rate cfg * real_of_int ?i2"
    using assms(1) by (intro mult_left_mono) simp_all
  then have st: "\<lfloor>decay_rate cfg * real_of_int ?i1\<rfloor> \<le> \<lfloor>decay_rate cfg * real_of_int ?i2\<rfloor>"
    by (rule floor_mono)
  show ?thesis
    using st by (auto simp add: decayed_importance_def Let_def protected_minimum_def)
qed


theorem decay_monotone_witness:
  "0 \<le> decay_rate example_decay \<and> (4::int) \<le> 100
   \<and> protected_threshold example_decay \<le> access_count (example_entry ''m1'' ''alice'' 6 [] 0)
   \<and> decayed_importance example_decay (example_entry ''m1'' ''alice'' 6 [] 0) 100 = 1
   \<and> decayed_importance example_decay (example_entry ''m1'' ''alice'' 6 [] 0) 4 = 4"
  using decay_monotone [of example_decay 4 100 "example_entry ''m1'' ''alice'' 6 [] 0"]
  by (simp add: decayed_importance_def example_decay_def example_entry_def Let_def
      protected_minimum_def)


subsection \<open>Deleting what does not exist\<close>






subsection \<open>Sending a message\<close>

text \<open>
  C8. For a message that is not blank, \<open>sendMessage\<close> appends the user's message (the
  typed text, marked as the user's, with no response) and sets the typing flag before
  it calls the backend with that text, and its last effect resets the flag, whether the
  call resolves or rejects; after a rejection the list holds the user's message, no bot
  message, and the error field holds the message of the error; after a success the
  bot's message, with the response of the backend, follows the user's.
\<close>

theorem sendMessage_typing:
  assumes nb: "\<not> is_blank msg"
  shows "userMessage env msg =
           \<lparr> msg_id = user_uuid env, message = msg, response = None,
             timestamp = user_time env, isUser = True, tone_used = None,
             emotion_detected = None, memory_recalled = None, tokens_used = None,
             response_time = None \<rparr>
     \<and> take 3 (sendMessage env state msg uid) =
           [ChatDispatch (ADD_MESSAGE (userMessage env msg)),
            ChatDispatch (SET_TYPING True),
            ApiCall (SendMessage
              \<lparr> req_user_id = uid, req_message = msg, req_session_id = currentSessionId state,
                req_recent_context = join_space (map message (slice_last3 (messages state))) \<rparr>)]
     \<and> last (sendMessage env state msg uid) = ChatDispatch (SET_TYPING False)
     \<and> messages (chat_ctx (run w (take 2 (sendMessage env state msg uid))))
         = messages (chat_ctx w) @ [userMessage env msg]
     \<and> isTyping (chat_ctx (run w (take 2 (sendMessage env state msg uid))))
     \<and> requests (run w (take 2 (sendMessage env state msg uid))) = requests w
     \<and> \<not> isTyping (chat_ctx (run w (sendMessage env state msg uid)))
     \<and> (\<forall>e. send_outcome env = Rejected e \<longrightarrow>
          messages (chat_ctx (run w (sendMessage env state msg uid)))
            = messages (chat_ctx w) @ [userMessage env msg]
          \<and> error (chat_ctx (run w (sendMessage env state msg uid))) = e)
     \<and> (\<forall>r. send_outcome env = Resolved r \<longrightarrow>
          messages (chat_ctx (run w (sendMessage env state msg uid)))
            = messages (chat_ctx w) @
              [userMessage env msg,
               \<lparr> msg_id = bot_uuid env, message = msg, response = Some (res_response r),
                 timestamp = bot_time env, isUser = False, tone_used = res_tone_used r,
                 emotion_detected = res_emotion_detected r,
                 memory_recalled = res_memory_recalled r, tokens_used = res_tokens_used r,
                 response_time = res_response_time r \<rparr>])"
proof -
  have um: "userMessage env msg =
           \<lparr> msg_id = user_uuid env, message = msg, response = None,
             timestamp = user_time env, isUser = True, tone_used = None,
             emotion_detected = None, memory_recalled = None, tokens_used = None,
             response_time = None \<rparr>"
    by (simp add: userMessage_def)
  have s: "sendMessage env state msg uid
      = sendMessage_before env state msg uid @ sendMessage_after env state msg uid"
    using nb by (simp add: sendMessage_def)
  have t3: "take 3 (sendMessage env state msg uid) =
           [ChatDispatch (ADD_MESSAGE (userMessage env msg)),
            ChatDispatch (SET_TYPING True),
            ApiCall (SendMessage
              \<lparr> req_user_id = uid, req_message = msg, req_session_id = currentSessionId state,
                req_recent_context = join_space (map message (slice_last3 (messages state))) \<rparr>)]"
    by (simp add: s sendMessage_before_def sendMessage_request_def)
  have t2: "take 2 (sendMessage env state msg uid) =
      [ChatDispatch (ADD_MESSAGE (userMessage env msg)), ChatDispatch (SET_TYPING True)]"
    by (simp add: s sendMessage_before_def)
  have l: "last (sendMessage env state msg uid) = ChatDispatch (SET_TYPING False)"
    by (simp add: s sendMessage_after_def)
  have b1: "messages (chat_ctx (run w (take 2 (sendMessage env state msg uid))))
         = messages (chat_ctx w) @ [userMessage env msg]"
    and b2: "isTyping (chat_ctx (run w (take 2 (sendMessage env state msg uid))))"
    and b3: "requests (run w (take 2 (sendMessage env state msg uid))) = requests w"
    by (simp_all add: t2 run_Cons run_Nil)
  have fin: "\<not> isTyping (chat_ctx (run w (sendMessage env state msg uid)))"
    by (simp add: s sendMessage_after_def run_append run_Cons run_Nil)
  have rej: "messages (chat_ctx (run w (sendMessage env state msg uid)))
            = messages (chat_ctx w) @ [userMessage env msg]
          \<and> error (chat_ctx (run w (sendMessage env state msg uid))) = e"
    if "send_outcome env = Rejected e" for e
    using that by (simp add: s sendMessage_before_def sendMessage_after_def run_Cons run_Nil)
  have res: "messages (chat_ctx (run w (sendMessage env state msg uid)))
            = messages (chat_ctx w) @
              [userMessage env msg,
               \<lparr> msg_id = bot_uuid env, message = msg, response = Some (res_response r),
                 timestamp = bot_time env, isUser = False, tone_used = res_tone_used r,
                 emotion_detected = res_emotion_detected r,
                 memory_recalled = res_memory_recalled r, tokens_used = res_tokens_used r,
                 response_time = res_response_time r \<rparr>]"
    if "send_outcome env = Resolved r" for r
    using that
    by (simp add: s sendMessage_before_def sendMessage_after_def run_Cons run_Nil run_append
        run_loadSessions_chat botMessage_def)
  show ?thesis
    using um t3 l b1 b2 b3 fin rej res by blast
qed

theorem sendMessage_typing_witness:
  "\<not> is_blank (js ''hi'')
   \<and> send_outcome (example_env (Rejected (Some (js ''Network Error''))))
       = Rejected (Some (js ''Network Error''))
   \<and> messages (chat_ctx (run example_world
        (sendMessage (example_env (Rejected (Some (js ''Network Error'')))) example_chat (js ''hi'')
           (Some (js ''alice'')))))
       = messages (chat_ctx example_world)
         @ [\<lparr> msg_id = js ''u1'', message = js ''hi'', response = None,
              timestamp = js ''t1'', isUser = True, tone_used = None,
              emotion_detected = None, memory_recalled = None, tokens_used = None,
              response_time = None \<rparr>]
   \<and> error (chat_ctx (run example_world
        (sendMessage (example_env (Rejected (Some (js ''Network Error'')))) example_chat (js ''hi'')
           (Some (js ''alice''))))) = Some (js ''Network Error'')
   \<and> \<not> isTyping (chat_ctx (run example_world
        (sendMessage (example_env (Rejected (Some (js ''Network Error'')))) example_chat (js ''hi'')
           (Some (js ''alice'')))))
   \<and> send_outcome (example_env (Resolved example_response)) = Resolved example_response
   \<and> map isUser (messages (chat_ctx (run example_world
        (sendMessage (example_env (Resolved example_response)) example_chat (js ''hi'')
           (Some (js ''alice''))))))
       = map isUser (messages (chat_ctx example_world)) @ [True, False]
   \<and> map response (messages (chat_ctx (run example_world
        (sendMessage (example_env (Resolved example_response)) example_chat (js ''hi'')
           (Some (js ''alice''))))))
       = map response (messages (chat_ctx example_world))
         @ [None, Some (res_response example_response)]"
proof -
  have nb: "\<not> is_blank (js ''hi'')"
    by (simp add: is_blank_def trim_def trim_start_def js_def is_js_whitespace_def)
  have o1: "send_outcome (example_env (Rejected (Some (js ''Network Error''))))
       = Rejected (Some (js ''Network Error''))"
    by (simp add: example_env_def)
  have o2: "send_outcome (example_env (Resolved example_response)) = Resolved example_response"
    by (simp add: example_env_def)
  note t1 = sendMessage_typing [OF nb, of "example_env (Rejected (Some (js ''Network Error'')))"
      example_chat "Some (js ''alice'')" example_world]
  note t2 = sendMessage_typing [OF nb, of "example_env (Resolved example_response)"
      example_chat "Some (js ''alice'')" example_world]
  have u1: "user_uuid (example_env (Rejected (Some (js ''Network Error'')))) = js ''u1''"
    and u2: "user_time (example_env (Rejected (Some (js ''Network Error'')))) = js ''t1''"
    by (simp_all add: example_env_def)
  from t1 o1 have r1: "messages (chat_ctx (run example_world
        (sendMessage (example_env (Rejected (Some (js ''Network Error'')))) example_chat (js ''hi'')
           (Some (js ''alice'')))))
       = messages (chat_ctx example_world)
         @ [\<lparr> msg_id = js ''u1'', message = js ''hi'', response = None,
              timestamp = js ''t1'', isUser = True, tone_used = None,
              emotion_detected = None, memory_recalled = None, tokens_used = None,
              response_time = None \<rparr>]"
    by (metis u1 u2)
  from t1 o1 have r2: "error (chat_ctx (run example_world
        (sendMessage (example_env (Rejected (Some (js ''Network Error'')))) example_chat (js ''hi'')
           (Some (js ''alice''))))) = Some (js ''Network Error'')"
    by blast
  from t1 have r3: "\<not> isTyping (chat_ctx (run example_world
        (sendMessage (example_env (Rejected (Some (js ''Network Error'')))) example_chat (js ''hi'')
           (Some (js ''alice'')))))"
    by blast
  from t2 o2 have m: "messages (chat_ctx (run example_world
        (sendMessage (example_env (Resolved example_response)) example_chat (js ''hi'')
           (Some (js ''alice'')))))
       = messages (chat_ctx example_world) @
              [userMessage (example_env (Resolved example_response)) (js ''hi''),
               \<lparr> msg_id = bot_uuid (example_env (Resolved example_response)),
                 message = js ''hi'', response = Some (res_response example_response),
                 timestamp = bot_time (example_env (Resolved example_response)),
                 isUser = False, tone_used = res_tone_used example_response,
                 emotion_detected = res_emotion_detected example_response,
                 memory_recalled = res_memory_recalled example_response,
                 tokens_used = res_tokens_used example_response,
                 response_time = res_response_time example_response \<rparr>]"
    by blast
  have r4: "map isUser (messages (chat_ctx (run example_world
        (sendMessage (example_env (Resolved example_response)) example_chat (js ''hi'')
           (Some (js ''alice''))))))
       = map isUser (messages (chat_ctx example_world)) @ [True, False]"
    by (simp add: m userMessage_def)
  have r5: "map response (messages (chat_ctx (run example_world
        (sendMessage (example_env (Resolved example_response)) example_chat (js ''hi'')
           (Some (js ''alice''))))))
       = map response (messages (chat_ctx example_world))
         @ [None, Some (res_response example_response)]"
    by (simp add: m userMessage_def)
  show ?thesis using nb o1 o2 r1 r2 r3 r4 r5 by blast
qed


subsection \<open>The form that adds a memory\<close>

text \<open>
  C4. When the content of the form is empty or white space only, \<open>handleAddMemory\<close>
  does nothing but prevent the default action of the event: it sends no request and
  changes no state. \<open>sendMessage\<close> likewise does nothing for such a message.
\<close>

theorem blank_content_rejected:
  "(is_blank (content (newMemory view)) \<longrightarrow>
      handleAddMemory outcome refresh state view = [PreventDefault]
      \<and> run w (handleAddMemory outcome refresh state view) = w)
   \<and> (is_blank msg \<longrightarrow>
      sendMessage env cstate msg uid = []
      \<and> run w (sendMessage env cstate msg uid) = w)"
  by (simp add: handleAddMemory_def sendMessage_def run_def)

theorem blank_content_rejected_witness:
  "is_blank (content (newMemory (content_change (js ''  '') (form example_world))))
   \<and> handleAddMemory (Resolved ()) (Resolved []) example_user
        (content_change (js ''  '') (form example_world)) = [PreventDefault]
   \<and> run example_world (handleAddMemory (Resolved ()) (Resolved []) example_user
        (content_change (js ''  '') (form example_world))) = example_world
   \<and> is_blank []
   \<and> sendMessage (example_env (Resolved example_response)) example_chat [] (Some (js ''alice''))
       = []"
proof -
  have b: "is_blank (content (newMemory (content_change (js ''  '') (form example_world))))"
    by (simp add: content_change_def is_blank_def trim_def trim_start_def js_def
        is_js_whitespace_def)
  have e: "is_blank []"
    by (simp add: is_blank_def trim_def trim_start_def)
  note t = blank_content_rejected [of "content_change (js ''  '') (form example_world)"
      "Resolved ()" "Resolved []" example_user example_world "[]"
      "example_env (Resolved example_response)" example_chat "Some (js ''alice'')"]
  show ?thesis using b e t by blast
qed


text \<open>
  C6 (as stated, refuted). \<open>context\<close> is one of the memory types, and the select of
  the form has no option for it.
\<close>

theorem context_not_offered:
  "js ''context'' \<in> set (map fst colors) \<and> js ''context'' \<notin> set memory_type_options"
  by (simp add: colors_def memory_type_options_def js_def)


text \<open>
  C6 (amended). The memory types are exactly the six values preference, fact, emotion,
  goal, interest and context; the form offers all of them but context, and each value
  that it offers is the type of the memory that is submitted once it is selected.
\<close>

theorem memory_types_offered:
  "set (map fst colors) = {js ''preference'', js ''fact'', js ''emotion'', js ''goal'',
                           js ''interest'', js ''context''}
   \<and> distinct (map fst colors) \<and> length colors = 6
   \<and> set memory_type_options \<subseteq> set (map fst colors)
   \<and> set (map fst colors) - set memory_type_options = {js ''context''}
   \<and> (\<forall>t \<in> set memory_type_options.
        \<not> is_blank (content (newMemory view)) \<and> \<not> falsy (userId state) \<longrightarrow>
          handleAddMemory outcome refresh state (memory_type_change t view) ! 1
            = ApiCall (AddUserMemory (userId state) ((newMemory view)\<lparr>memory_type := t\<rparr>))
          \<and> (outcome = Resolved () \<longrightarrow>
               handleAddMemory outcome refresh state (memory_type_change t view) ! 2
                 = UserDispatch (ADD_MEMORY ((newMemory view)\<lparr>memory_type := t\<rparr>))))"
proof -
  have k: "set (map fst colors) = {js ''preference'', js ''fact'', js ''emotion'', js ''goal'',
                           js ''interest'', js ''context''}"
    by (auto simp add: colors_def)
  have d: "distinct (map fst colors)" by (simp add: colors_def js_def)
  have l: "length colors = 6" by (simp add: colors_def)
  have s: "set memory_type_options \<subseteq> set (map fst colors)"
    unfolding k by (auto simp add: memory_type_options_def)
  have m: "set (map fst colors) - set memory_type_options = {js ''context''}"
    by (auto simp add: colors_def memory_type_options_def js_def)
  have a: "handleAddMemory outcome refresh state (memory_type_change t view) ! 1
            = ApiCall (AddUserMemory (userId state) ((newMemory view)\<lparr>memory_type := t\<rparr>))
          \<and> (outcome = Resolved () \<longrightarrow>
               handleAddMemory outcome refresh state (memory_type_change t view) ! 2
                 = UserDispatch (ADD_MEMORY ((newMemory view)\<lparr>memory_type := t\<rparr>)))"
    if "\<not> is_blank (content (newMemory view)) \<and> \<not> falsy (userId state)" for t
    using that by (simp add: handleAddMemory_def memory_type_change_def addMemory_def)
  show ?thesis using k d l s m a by blast
qed

theorem memory_types_offered_witness:
  "js ''goal'' \<in> set memory_type_options
   \<and> \<not> is_blank (content (newMemory (content_change (js ''run'') (form example_world))))
   \<and> \<not> falsy (userId example_user)
   \<and> handleAddMemory (Resolved ()) (Resolved []) example_user
        (memory_type_change (js ''goal'') (content_change (js ''run'') (form example_world))) ! 2
       = UserDispatch (ADD_MEMORY
           ((newMemory (content_change (js ''run'') (form example_world)))
              \<lparr>memory_type := js ''goal''\<rparr>))"
proof -
  have g: "js ''goal'' \<in> set memory_type_options"
    by (simp add: memory_type_options_def)
  have nb: "\<not> is_blank (content (newMemory (content_change (js ''run'') (form example_world))))"
    by (simp add: content_change_def is_blank_def trim_def trim_start_def js_def
        is_js_whitespace_def)
  have nf: "\<not> falsy (userId example_user)"
    by (simp add: example_user_def js_def)
  note t = memory_types_offered [of "content_change (js ''run'') (form example_world)"
      example_user "Resolved ()" "Resolved []"]
  show ?thesis using g nb nf t by blast
qed

text \<open>
  C7 (failing input). The user clears the importance field and submits a memory with
  content: the request to the backend and the entry appended to the list of memories
  carry the importance \<open>NaN\<close>, which is no integer from 1 to 10.
\<close>

theorem cleared_importance_is_NaN:
  "handleAddMemory (Resolved ()) (Resolved []) example_user
     (importance_change [] (content_change (js ''run'') (form example_world)))
   = [PreventDefault,
      ApiCall (AddUserMemory (Some (js ''alice''))
        \<lparr>content = js ''run'', memory_type = js ''preference'', importance_score = NaN\<rparr>),
      UserDispatch (ADD_MEMORY
        \<lparr>content = js ''run'', memory_type = js ''preference'', importance_score = NaN\<rparr>),
      ToastSuccess (js ''Memory added successfully''),
      ApiCall (GetUserMemories (Some (js ''alice'')) None),
      UserDispatch (SET_MEMORIES []),
      SetNewMemory emptyMemory,
      SetShowAddMemory False]
   \<and> memories (user_ctx (run example_world
        (take 3 (handleAddMemory (Resolved ()) (Resolved []) example_user
          (importance_change [] (content_change (js ''run'') (form example_world)))))))
     = [Loaded (Some (js ''m1'')) (js ''likes tea'') None,
        Added \<lparr>content = js ''run'', memory_type = js ''preference'', importance_score = NaN\<rparr>]"
  by (simp add: handleAddMemory_def importance_change_def content_change_def example_world_def
      example_user_def run_def
      emptyMemory_def parseInt_def trim_start_def addMemory_def loadMemories_def
      is_blank_def trim_def js_def is_js_whitespace_def)


end
